theory Spec2Isabelle
  imports Main "HOL-Library.Word"
begin

section \<open>Data model\<close>

text \<open>
  The reconciler of \<^verbatim>\<open>internal/controller/memcached_controller.go\<close> works on three kinds
  of objects held by the cluster API: the \<^verbatim>\<open>Deployer\<close> custom resource, a \<^verbatim>\<open>DaemonSet\<close>
  and a \<^verbatim>\<open>Deployment\<close>. Only the fields the controller reads or writes are kept; the
  fixed pod templates (volumes, container arguments, probes) are represented by the
  image references they are built from.
\<close>

datatype ConditionStatus = ConditionTrue | ConditionFalse | ConditionUnknown

record Condition =
  Type :: string
  Status :: ConditionStatus
  Reason :: string
  Message :: string

record Deployer =
  Name :: string
  Namespace :: string
  Finalizers :: "string list"
  DeletionTimestamp :: "nat option"
  Size :: "32 word"
  Conditions :: "Condition list"

record OwnerReference =
  ownerKind :: string
  ownerName :: string
  ownerController :: bool

type_synonym labels = "(string \<times> string) list"

record DaemonSet =
  dsName :: string
  dsNamespace :: string
  dsLabels :: labels
  dsImages :: "string list"
  dsOwnerReferences :: "OwnerReference list"

record Deployment =
  depName :: string
  depNamespace :: string
  depReplicas :: "32 word option"
  depLabels :: labels
  depImages :: "string list"
  depOwnerReferences :: "OwnerReference list"

text \<open>Errors are values; a Go panic is kept apart from an \<^verbatim>\<open>error\<close> return.\<close>

datatype error = NotFound | AlreadyExists | ApiFailure string | Errorf string

datatype panic = IndexOutOfRange nat nat | NilDereference

fun IsNotFound :: "error \<Rightarrow> bool" where
  "IsNotFound NotFound = True"
| "IsNotFound _ = False"

fun Error :: "error \<Rightarrow> string" where
  "Error NotFound = ''not found''"
| "Error AlreadyExists = ''already exists''"
| "Error (ApiFailure m) = m"
| "Error (Errorf m) = m"

record Result =
  Requeue :: bool
  RequeueAfter :: nat

datatype outcome = Return Result "error option" | Panicked panic

definition Minute :: nat where
  "Minute = 60 * 1000000000"

definition deployerFinalizer :: string where
  "deployerFinalizer = ''cache.example.com/finalizer''"

definition typeAvailableDeployer :: string where
  "typeAvailableDeployer = ''Available''"

definition typeDegradedDeployer :: string where
  "typeDegradedDeployer = ''Degraded''"

section \<open>Library functions used by the controller\<close>

text \<open>\<^verbatim>\<open>strings.Split(s, sep)\<close> for a one-character separator: the pieces between the
  occurrences of the separator, empty pieces included; never an empty result.\<close>

fun Split :: "string \<Rightarrow> char \<Rightarrow> string list" where
  "Split [] c = [[]]"
| "Split (x # xs) c =
     (if x = c then [] # Split xs c
      else (case Split xs c of [] \<Rightarrow> [[x]] | y # ys \<Rightarrow> (x # y) # ys))"

text \<open>Indexing a Go slice panics out of range.\<close>

definition index :: "'a list \<Rightarrow> nat \<Rightarrow> panic + 'a" where
  "index xs i = (if i < length xs then Inr (xs ! i) else Inl (IndexOutOfRange i (length xs)))"

text \<open>\<^verbatim>\<open>meta.SetStatusCondition\<close>: the first condition of the same type is updated in
  place, otherwise the new condition is appended. Transition times are left out.\<close>

fun SetStatusCondition :: "Condition list \<Rightarrow> Condition \<Rightarrow> Condition list" where
  "SetStatusCondition [] new = [new]"
| "SetStatusCondition (c # cs) new =
     (if Type c = Type new
      then c\<lparr>Status := Status new, Reason := Reason new, Message := Message new\<rparr> # cs
      else c # SetStatusCondition cs new)"

definition ContainsFinalizer :: "Deployer \<Rightarrow> string \<Rightarrow> bool" where
  "ContainsFinalizer obj f = (f \<in> set (Finalizers obj))"

definition AddFinalizer :: "Deployer \<Rightarrow> string \<Rightarrow> Deployer \<times> bool" where
  "AddFinalizer obj f =
     (if f \<in> set (Finalizers obj) then (obj, False)
      else (obj\<lparr>Finalizers := Finalizers obj @ [f]\<rparr>, True))"

definition RemoveFinalizer :: "Deployer \<Rightarrow> string \<Rightarrow> Deployer \<times> bool" where
  "RemoveFinalizer obj f =
     (let kept = filter (\<lambda>e. e \<noteq> f) (Finalizers obj)
      in (obj\<lparr>Finalizers := kept\<rparr>, length (Finalizers obj) \<noteq> length kept))"

text \<open>\<^verbatim>\<open>fmt.Sprintf("%d", n)\<close> for a 32-bit signed integer.\<close>

definition digit :: "nat \<Rightarrow> char" where
  "digit n = ''0123456789'' ! (n mod 10)"

fun decimal :: "nat \<Rightarrow> string" where
  "decimal n = (if n < 10 then [digit n] else decimal (n div 10) @ [digit n])"

declare decimal.simps [simp del]

definition Sprintf_d :: "32 word \<Rightarrow> string" where
  "Sprintf_d n = (if sint n < 0 then CHR ''-'' # decimal (nat (- sint n)) else decimal (nat (sint n)))"

text \<open>\<^verbatim>\<open>fmt.Sprintf\<close> for the verbs the controller uses: each \<^verbatim>\<open>%\<close> verb takes the next
  argument.\<close>

datatype arg = S string | D "32 word" | E error

fun render :: "arg \<Rightarrow> string" where
  "render (S s) = s"
| "render (D n) = Sprintf_d n"
| "render (E e) = Error e"

fun Sprintf :: "string \<Rightarrow> arg list \<Rightarrow> string" where
  "Sprintf [] args = []"
| "Sprintf [c] args = (if c = CHR ''%'' then ''%!(NOVERB)'' else [c])"
| "Sprintf (c # v # cs) args =
     (if c = CHR ''%'' then
        (case args of
           [] \<Rightarrow> ''%!'' @ [v] @ ''(MISSING)'' @ Sprintf cs []
         | a # rest \<Rightarrow> render a @ Sprintf cs rest)
      else c # Sprintf (v # cs) args)"

declare Sprintf.simps [simp del]

text \<open>\<^verbatim>\<open>controllerutil.SetControllerReference\<close>: the owner must live in the namespace of
  the object and its kind must be registered in the scheme.\<close>

definition SetControllerReference :: "Deployer \<Rightarrow> string \<Rightarrow> string list \<Rightarrow> error + OwnerReference" where
  "SetControllerReference owner objNs scheme =
     (if Namespace owner \<noteq> [] \<and> objNs = []
      then Inl (Errorf ''cluster-scoped resource must not have a namespace-scoped owner'')
      else if Namespace owner \<noteq> [] \<and> Namespace owner \<noteq> objNs
      then Inl (Errorf ''cross-namespace owner references are disallowed'')
      else if ''Deployer'' \<notin> set scheme
      then Inl (Errorf ''no kind is registered for the type v1alpha1.Deployer'')
      else Inr \<lparr>ownerKind = ''Deployer'', ownerName = Name owner, ownerController = True\<rparr>)"

section \<open>Image configuration and labels\<close>

type_synonym environ = "string \<rightharpoonup> string"

definition imageForDeployer :: "environ \<Rightarrow> error + string" where
  "imageForDeployer env =
     (case env ''DIRECTPV_IMAGE'' of
        None \<Rightarrow> Inl (Errorf (Sprintf ''Unable to find %s environment variable with the image''
                             [S ''DIRECTPV_IMAGE'']))
      | Some img \<Rightarrow> Inr img)"

definition imageForResizer :: "environ \<Rightarrow> error + string" where
  "imageForResizer env =
     (case env ''CSI_RESIZER'' of
        None \<Rightarrow> Inl (Errorf ''Unable to find #{imageEnvVar} environment variable with the image'')
      | Some img \<Rightarrow> Inr img)"

definition imageForProvisioner :: "environ \<Rightarrow> error + string" where
  "imageForProvisioner env =
     (case env ''CSI_PROVISIONER'' of
        None \<Rightarrow> Inl (Errorf ''Unable to find #{imageEnvVar} environment variable with the image'')
      | Some img \<Rightarrow> Inr img)"

definition imageForRegistrar :: "environ \<Rightarrow> error + string" where
  "imageForRegistrar env =
     (case env ''CSI_NODE_DRIVER_REGISTRAR'' of
        None \<Rightarrow> Inl (Errorf ''Unable to find #{imageEnvVar} environment variable with the image'')
      | Some img \<Rightarrow> Inr img)"

definition imageForLivenessProbe :: "environ \<Rightarrow> error + string" where
  "imageForLivenessProbe env =
     (case env ''LIVENESS_PROBE'' of
        None \<Rightarrow> Inl (Errorf ''Unable to find #{imageEnvVar} environment variable with the image'')
      | Some img \<Rightarrow> Inr img)"

definition labelMap :: "string \<Rightarrow> string \<Rightarrow> labels" where
  "labelMap name imageTag =
     [(''app.kubernetes.io/name'', ''Memcached''),
      (''app.kubernetes.io/instance'', name),
      (''app.kubernetes.io/version'', imageTag),
      (''app.kubernetes.io/part-of'', ''directpv-operator''),
      (''app.kubernetes.io/created-by'', ''controller-manager'')]"

definition labelsForMemcached :: "environ \<Rightarrow> string \<Rightarrow> panic + labels" where
  "labelsForMemcached env name =
     (case imageForDeployer env of
        Inl err \<Rightarrow> Inr (labelMap name [])
      | Inr img \<Rightarrow>
          (case index (Split img CHR '':'') 1 of
             Inl p \<Rightarrow> Inl p
           | Inr imageTag \<Rightarrow> Inr (labelMap name imageTag)))"

record DeployerReconciler =
  Scheme :: "string list"

definition daemonSetForDeployer ::
  "DeployerReconciler \<Rightarrow> environ \<Rightarrow> Deployer \<Rightarrow> panic + (error + DaemonSet)" where
  "daemonSetForDeployer r env memcached =
     (case labelsForMemcached env (Name memcached) of
        Inl p \<Rightarrow> Inl p
      | Inr ls \<Rightarrow>
     (case imageForDeployer env of
        Inl err \<Rightarrow> Inr (Inl err)
      | Inr controllerImage \<Rightarrow>
     (case imageForRegistrar env of
        Inl err \<Rightarrow> Inr (Inl err)
      | Inr registrarImage \<Rightarrow>
     (case imageForLivenessProbe env of
        Inl err \<Rightarrow> Inr (Inl err)
      | Inr livenessProbeImage \<Rightarrow>
     (case SetControllerReference memcached (Namespace memcached) (Scheme r) of
        Inl err \<Rightarrow> Inr (Inl err)
      | Inr ref \<Rightarrow>
          Inr (Inr \<lparr>dsName = ''node-server'',
                    dsNamespace = Namespace memcached,
                    dsLabels = ls,
                    dsImages = [registrarImage, controllerImage, controllerImage, livenessProbeImage],
                    dsOwnerReferences = [ref]\<rparr>))))))"

definition deploymentForDeployer ::
  "DeployerReconciler \<Rightarrow> environ \<Rightarrow> Deployer \<Rightarrow> panic + (error + Deployment)" where
  "deploymentForDeployer r env memcached =
     (case labelsForMemcached env (Name memcached) of
        Inl p \<Rightarrow> Inl p
      | Inr ls \<Rightarrow>
     (case imageForDeployer env of
        Inl err \<Rightarrow> Inr (Inl err)
      | Inr controllerImage \<Rightarrow>
     (case imageForResizer env of
        Inl err \<Rightarrow> Inr (Inl err)
      | Inr resizerImage \<Rightarrow>
     (case imageForProvisioner env of
        Inl err \<Rightarrow> Inr (Inl err)
      | Inr provisionerImage \<Rightarrow>
     (case SetControllerReference memcached (Namespace memcached) (Scheme r) of
        Inl err \<Rightarrow> Inr (Inl err)
      | Inr ref \<Rightarrow>
          Inr (Inr \<lparr>depName = Name memcached,
                    depNamespace = Namespace memcached,
                    depReplicas = Some (Size memcached),
                    depLabels = ls,
                    depImages = [provisionerImage, controllerImage, resizerImage],
                    depOwnerReferences = [ref]\<rparr>))))))"

section \<open>The cluster API\<close>

text \<open>
  The client of the cluster API is modelled as a store of the three kinds of objects,
  keyed by namespace and name. Every call is appended to \<open>calls\<close> with its outcome.
  The schedule \<open>faults\<close> says which calls the API fails: when the log holds \<open>i\<close> entries
  and \<open>faults w i = Some m\<close>, the next call fails with the API error \<open>m\<close> whatever the
  store holds; otherwise the store answers. The custom resource has a status subresource: \<open>Update\<close> writes everything but
  the conditions, \<open>Status().Update\<close> writes the conditions only, and both hand the
  stored object back. A resource whose deletion timestamp is set is purged by the
  update that leaves it without finalizers.
\<close>

type_synonym NamespacedName = "string \<times> string"

datatype op =
    GetDeployer NamespacedName
  | StatusUpdate Deployer
  | UpdateDeployer Deployer
  | GetDaemonSet NamespacedName
  | CreateDaemonSet DaemonSet
  | GetDeployment NamespacedName
  | CreateDeployment Deployment
  | UpdateDeployment Deployment
  | Event string string string string

record world =
  deployers :: "NamespacedName \<rightharpoonup> Deployer"
  daemonsets :: "NamespacedName \<rightharpoonup> DaemonSet"
  deployments :: "NamespacedName \<rightharpoonup> Deployment"
  faults :: "nat \<Rightarrow> string option"
  calls :: "(op \<times> error option) list"

definition next_fault :: "world \<Rightarrow> string option" where
  "next_fault w = faults w (length (calls w))"

definition logged :: "op \<Rightarrow> error option \<Rightarrow> world \<Rightarrow> world" where
  "logged c e w = w\<lparr>calls := calls w @ [(c, e)]\<rparr>"

definition client_Get_Deployer :: "NamespacedName \<Rightarrow> world \<Rightarrow> (error + Deployer) \<times> world" where
  "client_Get_Deployer key w =
     (case next_fault w of
        Some m \<Rightarrow> (Inl (ApiFailure m), logged (GetDeployer key) (Some (ApiFailure m)) w)
      | None \<Rightarrow>
          (case deployers w key of
             None \<Rightarrow> (Inl NotFound, logged (GetDeployer key) (Some NotFound) w)
           | Some d \<Rightarrow> (Inr d, logged (GetDeployer key) None w)))"

definition client_Status_Update :: "Deployer \<Rightarrow> world \<Rightarrow> (error + Deployer) \<times> world" where
  "client_Status_Update d w =
     (case next_fault w of
        Some m \<Rightarrow> (Inl (ApiFailure m), logged (StatusUpdate d) (Some (ApiFailure m)) w)
      | None \<Rightarrow>
          (case deployers w (Namespace d, Name d) of
             None \<Rightarrow> (Inl NotFound, logged (StatusUpdate d) (Some NotFound) w)
           | Some s \<Rightarrow>
               (let new = s\<lparr>Conditions := Conditions d\<rparr>
                in (Inr new,
                    logged (StatusUpdate d) None
                      (w\<lparr>deployers := (deployers w)((Namespace d, Name d) \<mapsto> new)\<rparr>)))))"

definition client_Update :: "Deployer \<Rightarrow> world \<Rightarrow> (error + Deployer) \<times> world" where
  "client_Update d w =
     (case next_fault w of
        Some m \<Rightarrow> (Inl (ApiFailure m), logged (UpdateDeployer d) (Some (ApiFailure m)) w)
      | None \<Rightarrow>
          (case deployers w (Namespace d, Name d) of
             None \<Rightarrow> (Inl NotFound, logged (UpdateDeployer d) (Some NotFound) w)
           | Some s \<Rightarrow>
               (let new = d\<lparr>Conditions := Conditions s\<rparr>;
                    kept = (if DeletionTimestamp new \<noteq> None \<and> Finalizers new = []
                            then (deployers w)((Namespace d, Name d) := None)
                            else (deployers w)((Namespace d, Name d) \<mapsto> new))
                in (Inr new, logged (UpdateDeployer d) None (w\<lparr>deployers := kept\<rparr>)))))"

definition client_Get_DaemonSet :: "NamespacedName \<Rightarrow> world \<Rightarrow> (error + DaemonSet) \<times> world" where
  "client_Get_DaemonSet key w =
     (case next_fault w of
        Some m \<Rightarrow> (Inl (ApiFailure m), logged (GetDaemonSet key) (Some (ApiFailure m)) w)
      | None \<Rightarrow>
          (case daemonsets w key of
             None \<Rightarrow> (Inl NotFound, logged (GetDaemonSet key) (Some NotFound) w)
           | Some ds \<Rightarrow> (Inr ds, logged (GetDaemonSet key) None w)))"

definition client_Create_DaemonSet :: "DaemonSet \<Rightarrow> world \<Rightarrow> error option \<times> world" where
  "client_Create_DaemonSet ds w =
     (case next_fault w of
        Some m \<Rightarrow> (Some (ApiFailure m), logged (CreateDaemonSet ds) (Some (ApiFailure m)) w)
      | None \<Rightarrow>
          (case daemonsets w (dsNamespace ds, dsName ds) of
             Some _ \<Rightarrow> (Some AlreadyExists, logged (CreateDaemonSet ds) (Some AlreadyExists) w)
           | None \<Rightarrow>
               (None,
                logged (CreateDaemonSet ds) None
                  (w\<lparr>daemonsets := (daemonsets w)((dsNamespace ds, dsName ds) \<mapsto> ds)\<rparr>))))"

definition client_Get_Deployment :: "NamespacedName \<Rightarrow> world \<Rightarrow> (error + Deployment) \<times> world" where
  "client_Get_Deployment key w =
     (case next_fault w of
        Some m \<Rightarrow> (Inl (ApiFailure m), logged (GetDeployment key) (Some (ApiFailure m)) w)
      | None \<Rightarrow>
          (case deployments w key of
             None \<Rightarrow> (Inl NotFound, logged (GetDeployment key) (Some NotFound) w)
           | Some dep \<Rightarrow> (Inr dep, logged (GetDeployment key) None w)))"

definition client_Create_Deployment :: "Deployment \<Rightarrow> world \<Rightarrow> error option \<times> world" where
  "client_Create_Deployment dep w =
     (case next_fault w of
        Some m \<Rightarrow> (Some (ApiFailure m), logged (CreateDeployment dep) (Some (ApiFailure m)) w)
      | None \<Rightarrow>
          (case deployments w (depNamespace dep, depName dep) of
             Some _ \<Rightarrow> (Some AlreadyExists, logged (CreateDeployment dep) (Some AlreadyExists) w)
           | None \<Rightarrow>
               (None,
                logged (CreateDeployment dep) None
                  (w\<lparr>deployments := (deployments w)((depNamespace dep, depName dep) \<mapsto> dep)\<rparr>))))"

definition client_Update_Deployment :: "Deployment \<Rightarrow> world \<Rightarrow> error option \<times> world" where
  "client_Update_Deployment dep w =
     (case next_fault w of
        Some m \<Rightarrow> (Some (ApiFailure m), logged (UpdateDeployment dep) (Some (ApiFailure m)) w)
      | None \<Rightarrow>
          (case deployments w (depNamespace dep, depName dep) of
             None \<Rightarrow> (Some NotFound, logged (UpdateDeployment dep) (Some NotFound) w)
           | Some _ \<Rightarrow>
               (None,
                logged (UpdateDeployment dep) None
                  (w\<lparr>deployments := (deployments w)((depNamespace dep, depName dep) \<mapsto> dep)\<rparr>))))"

text \<open>\<^verbatim>\<open>Recorder.Event\<close> is fire-and-forget: it is logged and cannot fail.\<close>

definition Recorder_Event :: "Deployer \<Rightarrow> string \<Rightarrow> string \<Rightarrow> string \<Rightarrow> world \<Rightarrow> world" where
  "Recorder_Event cr eventtype reason msg w = logged (Event (Name cr) eventtype reason msg) None w"

section \<open>The reconciler\<close>

definition doFinalizerOperationsForDeployer :: "Deployer \<Rightarrow> world \<Rightarrow> world" where
  "doFinalizerOperationsForDeployer cr w =
     Recorder_Event cr ''Warning'' ''Deleting''
       (Sprintf ''Custom Resource %s is being deleted from the namespace %s''
          [S (Name cr), S (Namespace cr)]) w"

definition noRequeue :: Result where
  "noRequeue = \<lparr>Requeue = False, RequeueAfter = 0\<rparr>"

definition setCondition :: "Deployer \<Rightarrow> string \<Rightarrow> ConditionStatus \<Rightarrow> string \<Rightarrow> string \<Rightarrow> Deployer" where
  "setCondition d t s rsn msg =
     d\<lparr>Conditions := SetStatusCondition (Conditions d)
          \<lparr>Type = t, Status = s, Reason = rsn, Message = msg\<rparr>\<rparr>"

text \<open>\<^verbatim>\<open>Reconcile\<close>, lines 110 to 127: the status is set to Unknown when there is none.\<close>

definition Reconcile_status :: "NamespacedName \<Rightarrow> Deployer \<Rightarrow> world \<Rightarrow> (outcome + Deployer) \<times> world" where
  "Reconcile_status req deployer w =
     (if Conditions deployer = [] then
        (case client_Status_Update
                (setCondition deployer typeAvailableDeployer ConditionUnknown
                   ''Reconciling'' ''Starting reconciliation'') w of
           (Inl err, w1) \<Rightarrow> (Inl (Return noRequeue (Some err)), w1)
         | (Inr _, w1) \<Rightarrow>
             (case client_Get_Deployer req w1 of
                (Inl err, w2) \<Rightarrow> (Inl (Return noRequeue (Some err)), w2)
              | (Inr refetched, w2) \<Rightarrow> (Inr refetched, w2)))
      else (Inr deployer, w))"

text \<open>Lines 132 to 143: the finalizer is added when the resource does not carry it.\<close>

definition Reconcile_add_finalizer :: "Deployer \<Rightarrow> world \<Rightarrow> (outcome + Deployer) \<times> world" where
  "Reconcile_add_finalizer deployer w =
     (if \<not> ContainsFinalizer deployer deployerFinalizer then
        (case AddFinalizer deployer deployerFinalizer of
           (deployer1, ok) \<Rightarrow>
             if \<not> ok then (Inl (Return \<lparr>Requeue = True, RequeueAfter = 0\<rparr> None), w)
             else
               (case client_Update deployer1 w of
                  (Inl err, w1) \<Rightarrow> (Inl (Return noRequeue (Some err)), w1)
                | (Inr updated, w1) \<Rightarrow> (Inr updated, w1)))
      else (Inr deployer, w))"

text \<open>Lines 148 to 200: the resource is marked to be deleted.\<close>

definition Reconcile_finalize :: "NamespacedName \<Rightarrow> Deployer \<Rightarrow> world \<Rightarrow> outcome \<times> world" where
  "Reconcile_finalize req deployer w =
     (if ContainsFinalizer deployer deployerFinalizer then
        (case client_Status_Update
                (setCondition deployer typeDegradedDeployer ConditionUnknown ''Finalizing''
                   (Sprintf ''Performing finalizer operations for the custom resource: %s ''
                      [S (Name deployer)])) w of
           (Inl err, w1) \<Rightarrow> (Return noRequeue (Some err), w1)
         | (Inr deployer1, w1) \<Rightarrow>
             (case client_Get_Deployer req (doFinalizerOperationsForDeployer deployer1 w1) of
                (Inl err, w2) \<Rightarrow> (Return noRequeue (Some err), w2)
              | (Inr deployer2, w2) \<Rightarrow>
                  (case client_Status_Update
                          (setCondition deployer2 typeDegradedDeployer ConditionTrue ''Finalizing''
                             (Sprintf ''Finalizer operations for custom resource %s name were successfully accomplished''
                                [S (Name deployer2)])) w2 of
                     (Inl err, w3) \<Rightarrow> (Return noRequeue (Some err), w3)
                   | (Inr deployer3, w3) \<Rightarrow>
                       (case RemoveFinalizer deployer3 deployerFinalizer of
                          (deployer4, ok) \<Rightarrow>
                            if \<not> ok then (Return \<lparr>Requeue = True, RequeueAfter = 0\<rparr> None, w3)
                            else
                              (case client_Update deployer4 w3 of
                                 (Inl err, w4) \<Rightarrow> (Return noRequeue (Some err), w4)
                               | (Inr _, w4) \<Rightarrow> (Return noRequeue None, w4))))))
      else (Return noRequeue None, w))"

text \<open>Lines 202 to 235: the daemonset is looked up and created when it is not found.\<close>

definition Reconcile_daemonset ::
  "DeployerReconciler \<Rightarrow> environ \<Rightarrow> Deployer \<Rightarrow> world \<Rightarrow> (outcome + unit) \<times> world" where
  "Reconcile_daemonset r env deployer w =
     (case client_Get_DaemonSet (''directpv'', Name deployer) w of
        (Inr foundDaemonSet, w1) \<Rightarrow> (Inr (), w1)
      | (Inl err, w1) \<Rightarrow>
          if IsNotFound err then
            (case daemonSetForDeployer r env deployer of
               Inl p \<Rightarrow> (Inl (Panicked p), w1)
             | Inr (Inl err1) \<Rightarrow>
                 (case client_Status_Update
                         (setCondition deployer typeAvailableDeployer ConditionFalse ''Reconciling''
                            (Sprintf ''Failed to create DaemonSet for the custom resource (%s): (%s)''
                               [S (Name deployer), E err1])) w1 of
                    (Inl err2, w2) \<Rightarrow> (Inl (Return noRequeue (Some err2)), w2)
                  | (Inr _, w2) \<Rightarrow> (Inl (Return noRequeue (Some err1)), w2))
             | Inr (Inr daemonSet) \<Rightarrow>
                 (case client_Create_DaemonSet daemonSet w1 of
                    (Some err1, w2) \<Rightarrow> (Inl (Return noRequeue (Some err1)), w2)
                  | (None, w2) \<Rightarrow> (Inr (), w2)))
          else (Inl (Return noRequeue (Some err)), w1))"

text \<open>Lines 237 to 275: the deployment is looked up and created when it is not found.\<close>

definition Reconcile_deployment ::
  "DeployerReconciler \<Rightarrow> environ \<Rightarrow> Deployer \<Rightarrow> world \<Rightarrow> (outcome + Deployment) \<times> world" where
  "Reconcile_deployment r env deployer w =
     (case client_Get_Deployment (''directpv'', Name deployer) w of
        (Inr foundDeployment, w1) \<Rightarrow> (Inr foundDeployment, w1)
      | (Inl err, w1) \<Rightarrow>
          if IsNotFound err then
            (case deploymentForDeployer r env deployer of
               Inl p \<Rightarrow> (Inl (Panicked p), w1)
             | Inr (Inl err1) \<Rightarrow>
                 (case client_Status_Update
                         (setCondition deployer typeAvailableDeployer ConditionFalse ''Reconciling''
                            (Sprintf ''Failed to create Deployment for the custom resource (%s): (%s)''
                               [S (Name deployer), E err1])) w1 of
                    (Inl err2, w2) \<Rightarrow> (Inl (Return noRequeue (Some err2)), w2)
                  | (Inr _, w2) \<Rightarrow> (Inl (Return noRequeue (Some err1)), w2))
             | Inr (Inr dep) \<Rightarrow>
                 (case client_Create_Deployment dep w1 of
                    (Some err1, w2) \<Rightarrow> (Inl (Return noRequeue (Some err1)), w2)
                  | (None, w2) \<Rightarrow>
                      (Inl (Return \<lparr>Requeue = False, RequeueAfter = Minute\<rparr> None), w2)))
          else (Inl (Return noRequeue (Some err)), w1))"

text \<open>Lines 277 to 326: the size of the deployment is brought to the size of the spec,
  or the resource is reported available.\<close>

definition Reconcile_size :: "NamespacedName \<Rightarrow> Deployer \<Rightarrow> Deployment \<Rightarrow> world \<Rightarrow> outcome \<times> world" where
  "Reconcile_size req deployer foundDeployment w =
     (case depReplicas foundDeployment of
        None \<Rightarrow> (Panicked NilDereference, w)
      | Some replicas \<Rightarrow>
          if replicas \<noteq> Size deployer then
            (case client_Update_Deployment
                    (foundDeployment\<lparr>depReplicas := Some (Size deployer)\<rparr>) w of
               (Some err, w1) \<Rightarrow>
                 (case client_Get_Deployer req w1 of
                    (Inl err1, w2) \<Rightarrow> (Return noRequeue (Some err1), w2)
                  | (Inr deployer1, w2) \<Rightarrow>
                      (case client_Status_Update
                              (setCondition deployer1 typeAvailableDeployer ConditionFalse ''Resizing''
                                 (Sprintf ''Failed to update the size for the custom resource (%s): (%s)''
                                    [S (Name deployer1), E err])) w2 of
                         (Inl err2, w3) \<Rightarrow> (Return noRequeue (Some err2), w3)
                       | (Inr _, w3) \<Rightarrow> (Return noRequeue (Some err), w3)))
             | (None, w1) \<Rightarrow> (Return \<lparr>Requeue = True, RequeueAfter = 0\<rparr> None, w1))
          else
            (case client_Status_Update
                    (setCondition deployer typeAvailableDeployer ConditionTrue ''Reconciling''
                       (Sprintf ''Deployment for custom resource (%s) with %d replicas created successfully''
                          [S (Name deployer), D (Size deployer)])) w of
               (Inl err, w1) \<Rightarrow> (Return noRequeue (Some err), w1)
             | (Inr _, w1) \<Rightarrow> (Return noRequeue None, w1)))"

definition Reconcile ::
  "DeployerReconciler \<Rightarrow> environ \<Rightarrow> NamespacedName \<Rightarrow> world \<Rightarrow> outcome \<times> world" where
  "Reconcile r env req w =
     (case client_Get_Deployer req w of
        (Inl err, w1) \<Rightarrow>
          if IsNotFound err then (Return noRequeue None, w1)
          else (Return noRequeue (Some err), w1)
      | (Inr deployer, w1) \<Rightarrow>
     (case Reconcile_status req deployer w1 of
        (Inl out, w2) \<Rightarrow> (out, w2)
      | (Inr deployer1, w2) \<Rightarrow>
     (case Reconcile_add_finalizer deployer1 w2 of
        (Inl out, w3) \<Rightarrow> (out, w3)
      | (Inr deployer2, w3) \<Rightarrow>
          if DeletionTimestamp deployer2 \<noteq> None then Reconcile_finalize req deployer2 w3
          else
     (case Reconcile_daemonset r env deployer2 w3 of
        (Inl out, w4) \<Rightarrow> (out, w4)
      | (Inr _, w4) \<Rightarrow>
     (case Reconcile_deployment r env deployer2 w4 of
        (Inl out, w5) \<Rightarrow> (out, w5)
      | (Inr foundDeployment, w5) \<Rightarrow> Reconcile_size req deployer2 foundDeployment w5)))))"

section \<open>Observing a pass\<close>

text \<open>The calls made by a pass that takes the world from \<open>w\<close> to \<open>w'\<close>.\<close>

definition pass_calls :: "world \<Rightarrow> world \<Rightarrow> (op \<times> error option) list" where
  "pass_calls w w' = drop (length (calls w)) (calls w')"

text \<open>The fault scheduled for the call number \<open>i\<close> from now, counting from 0.\<close>

definition fault_at :: "world \<Rightarrow> nat \<Rightarrow> string option" where
  "fault_at w i = faults w (length (calls w) + i)"

fun is_Event :: "op \<Rightarrow> bool" where
  "is_Event (Event _ _ _ _) = True"
| "is_Event _ = False"

fun is_UpdateDeployment :: "op \<Rightarrow> bool" where
  "is_UpdateDeployment (UpdateDeployment _) = True"
| "is_UpdateDeployment _ = False"

text \<open>The calls that write to the store.\<close>

fun is_write :: "op \<Rightarrow> bool" where
  "is_write (GetDeployer _) = False"
| "is_write (GetDaemonSet _) = False"
| "is_write (GetDeployment _) = False"
| "is_write (Event _ _ _ _) = False"
| "is_write _ = True"

text \<open>The calls of status initialisation and of finalizer attachment: reads and status
  writes of the resource, and updates of the resource that carry the finalizer.\<close>

fun initial_call :: "op \<Rightarrow> bool" where
  "initial_call (GetDeployer _) = True"
| "initial_call (StatusUpdate _) = True"
| "initial_call (UpdateDeployer d) = (deployerFinalizer \<in> set (Finalizers d))"
| "initial_call _ = False"

text \<open>In a log, every update of the resource that drops the finalizer comes after an
  audit event; \<open>seen\<close> says whether an event has been met already.\<close>

fun cleanup_before_removal :: "bool \<Rightarrow> (op \<times> error option) list \<Rightarrow> bool" where
  "cleanup_before_removal seen [] = True"
| "cleanup_before_removal seen ((Event _ _ _ _, _) # l) = cleanup_before_removal True l"
| "cleanup_before_removal seen ((UpdateDeployer d, _) # l) =
     ((deployerFinalizer \<in> set (Finalizers d) \<or> seen) \<and> cleanup_before_removal seen l)"
| "cleanup_before_removal seen (_ # l) = cleanup_before_removal seen l"

text \<open>The finalizer sets sent by the updates of the resource in a log, in order.\<close>

fun finalizer_writes :: "(op \<times> error option) list \<Rightarrow> (string list \<times> error option) list" where
  "finalizer_writes [] = []"
| "finalizer_writes ((UpdateDeployer d, e) # l) = (Finalizers d, e) # finalizer_writes l"
| "finalizer_writes (_ # l) = finalizer_writes l"

text \<open>The calls of a pass that finds both child workloads and no drift.\<close>

definition steadyCalls :: "NamespacedName \<Rightarrow> Deployer \<Rightarrow> (op \<times> error option) list" where
  "steadyCalls req d =
     [(GetDeployer req, None),
      (GetDaemonSet (''directpv'', Name d), None),
      (GetDeployment (''directpv'', Name d), None),
      (StatusUpdate d, None)]"

definition FindStatusCondition :: "Condition list \<Rightarrow> string \<Rightarrow> Condition option" where
  "FindStatusCondition conditions t = find (\<lambda>c. Type c = t) conditions"

section \<open>Example configurations\<close>

text \<open>A complete image configuration, a reconciler whose scheme knows the resource kind,
  and worlds holding one resource and no child workload.\<close>

definition exampleEnv :: environ where
  "exampleEnv = [''DIRECTPV_IMAGE'' \<mapsto> ''directpv:v4'',
                 ''CSI_RESIZER'' \<mapsto> ''resizer:v1'',
                 ''CSI_PROVISIONER'' \<mapsto> ''provisioner:v3'',
                 ''CSI_NODE_DRIVER_REGISTRAR'' \<mapsto> ''registrar:v2'',
                 ''LIVENESS_PROBE'' \<mapsto> ''livenessprobe:v2'']"

definition exampleReconciler :: DeployerReconciler where
  "exampleReconciler = \<lparr>Scheme = [''Deployer'']\<rparr>"

definition noFaults :: "nat \<Rightarrow> string option" where
  "noFaults = (\<lambda>i. None)"

definition reconcilingUnknown :: Condition where
  "reconcilingUnknown = \<lparr>Type = ''Available'', Status = ConditionUnknown,
                          Reason = ''Reconciling'', Message = ''Starting reconciliation''\<rparr>"

definition exampleDeployer :: "string \<Rightarrow> string list \<Rightarrow> nat option \<Rightarrow> Condition list \<Rightarrow> Deployer" where
  "exampleDeployer n fs dt cs =
     \<lparr>Name = n, Namespace = ''directpv'', Finalizers = fs, DeletionTimestamp = dt,
      Size = 3, Conditions = cs\<rparr>"

definition exampleWorld :: "Deployer \<Rightarrow> (nat \<Rightarrow> string option) \<Rightarrow> world" where
  "exampleWorld d f =
     \<lparr>deployers = [(Namespace d, Name d) \<mapsto> d], daemonsets = Map.empty,
      deployments = Map.empty, faults = f, calls = []\<rparr>"

definition exampleLabels :: "string \<Rightarrow> labels" where
  "exampleLabels n = labelMap n ''v4''"

definition exampleOwner :: "string \<Rightarrow> OwnerReference" where
  "exampleOwner n = \<lparr>ownerKind = ''Deployer'', ownerName = n, ownerController = True\<rparr>"

definition exampleDaemonSet :: "string \<Rightarrow> DaemonSet" where
  "exampleDaemonSet n =
     \<lparr>dsName = ''node-server'', dsNamespace = ''directpv'', dsLabels = exampleLabels n,
      dsImages = [''registrar:v2'', ''directpv:v4'', ''directpv:v4'', ''livenessprobe:v2''],
      dsOwnerReferences = [exampleOwner n]\<rparr>"

definition exampleDeployment :: "string \<Rightarrow> 32 word \<Rightarrow> Deployment" where
  "exampleDeployment n replicas =
     \<lparr>depName = n, depNamespace = ''directpv'', depReplicas = Some replicas,
      depLabels = exampleLabels n,
      depImages = [''provisioner:v3'', ''directpv:v4'', ''resizer:v1''],
      depOwnerReferences = [exampleOwner n]\<rparr>"

text \<open>A live resource \<open>x\<close> with its finalizer and an initialised status, no child workload.\<close>

definition liveWorld :: world where
  "liveWorld = exampleWorld (exampleDeployer ''x'' [deployerFinalizer] None [reconcilingUnknown]) noFaults"

text \<open>A resource \<open>x\<close> marked for deletion that another controller's finalizer keeps in
  the store, with and without the finalizer of this controller.\<close>

definition deletingWorld :: "(nat \<Rightarrow> string option) \<Rightarrow> world" where
  "deletingWorld f =
     exampleWorld (exampleDeployer ''x'' [''foregroundDeletion'', deployerFinalizer] (Some 1)
                     [reconcilingUnknown]) f"

definition releasedWorld :: "(nat \<Rightarrow> string option) \<Rightarrow> world" where
  "releasedWorld f =
     exampleWorld (exampleDeployer ''x'' [''foregroundDeletion''] (Some 1) [reconcilingUnknown]) f"

text \<open>The API fails, with the error \<open>m\<close>, the call made when the log holds \<open>n\<close> entries.\<close>

definition failAt :: "nat \<Rightarrow> string \<Rightarrow> nat \<Rightarrow> string option" where
  "failAt n m i = (if i = n then Some m else None)"

definition conflictAtFour :: "nat \<Rightarrow> string option" where
  "conflictAtFour = failAt 4 ''the object has been modified''"

text \<open>The API server refuses a new finalizer on a resource that is being deleted.\<close>

definition forbidden :: string where
  "forbidden = ''Forbidden: no new finalizers can be added if the object is being deleted''"

text \<open>A resource named like the daemonset the controller creates, with both child
  workloads in the store; the deployment runs \<open>replicas\<close> instances.\<close>

definition availableMessage :: "Deployer \<Rightarrow> string" where
  "availableMessage d =
     Sprintf ''Deployment for custom resource (%s) with %d replicas created successfully''
       [S (Name d), D (Size d)]"

definition convergedDeployer :: Deployer where
  "convergedDeployer =
     exampleDeployer ''node-server'' [deployerFinalizer] None
       [\<lparr>Type = ''Available'', Status = ConditionTrue, Reason = ''Reconciling'',
         Message = Sprintf ''Deployment for custom resource (%s) with %d replicas created successfully''
                     [S ''node-server'', D 3]\<rparr>]"

definition convergedWorld :: "32 word \<Rightarrow> (nat \<Rightarrow> string option) \<Rightarrow> world" where
  "convergedWorld replicas f =
     \<lparr>deployers = [(''directpv'', ''node-server'') \<mapsto> convergedDeployer],
      daemonsets = [(''directpv'', ''node-server'') \<mapsto> exampleDaemonSet ''node-server''],
      deployments = [(''directpv'', ''node-server'') \<mapsto> exampleDeployment ''node-server'' replicas],
      faults = f, calls = []\<rparr>"


text \<open>A resource that has just been created: no condition, no finalizer.\<close>

definition newWorld :: world where
  "newWorld = exampleWorld (exampleDeployer ''x'' [] None []) noFaults"

section \<open>Label derivation\<close>

lemma length_Split: "length (Split s c) = Suc (count_list s c)"
  by (induction s) (auto split: list.splits)

lemma count_list_absent: "c \<notin> set s \<Longrightarrow> count_list s c = 0"
  by (induction s) auto

text \<open>
  C10. When \<^verbatim>\<open>DIRECTPV_IMAGE\<close> is set to a string without a colon, the split of the image
  has one element, so reading element 1 panics: \<^verbatim>\<open>labelsForMemcached\<close> yields neither a
  label map nor an error, and both child-workload constructors, which call it first,
  abort with the same panic.
\<close>

theorem labelsForMemcached_panics_without_colon:
  assumes "env ''DIRECTPV_IMAGE'' = Some img" and "CHR '':'' \<notin> set img"
  shows "labelsForMemcached env name = Inl (IndexOutOfRange 1 1)
       \<and> daemonSetForDeployer r env d = Inl (IndexOutOfRange 1 1)
       \<and> deploymentForDeployer r env d = Inl (IndexOutOfRange 1 1)"
proof -
  have len: "length (Split img CHR '':'') = 1"
    using assms(2) by (simp add: length_Split count_list_absent)
  have l: "labelsForMemcached env n = Inl (IndexOutOfRange 1 1)" for n
    using assms(1) len by (simp add: labelsForMemcached_def imageForDeployer_def index_def)
  show ?thesis
    by (simp add: l daemonSetForDeployer_def deploymentForDeployer_def)
qed

theorem labelsForMemcached_panics_without_colon_witness:
  "[''DIRECTPV_IMAGE'' \<mapsto> ''directpv''] ''DIRECTPV_IMAGE'' = Some ''directpv''
   \<and> CHR '':'' \<notin> set ''directpv''
   \<and> labelsForMemcached [''DIRECTPV_IMAGE'' \<mapsto> ''directpv''] ''x'' = Inl (IndexOutOfRange 1 1)"
  using labelsForMemcached_panics_without_colon
    [of "[''DIRECTPV_IMAGE'' \<mapsto> ''directpv'']" "''directpv''" "''x''"]
  by simp

section \<open>The calls made by each step of a pass\<close>

lemma IsNotFound_iff [simp]: "IsNotFound e \<longleftrightarrow> e = NotFound"
  by (cases e) auto

lemma client_Get_Deployer_calls:
  "client_Get_Deployer k w = (res, w') \<Longrightarrow>
   calls w' = calls w @ [(GetDeployer k, case res of Inl e \<Rightarrow> Some e | Inr _ \<Rightarrow> None)]"
  by (auto simp: client_Get_Deployer_def next_fault_def logged_def split: list.splits option.splits)

lemma client_Status_Update_calls:
  "client_Status_Update d w = (res, w') \<Longrightarrow>
   calls w' = calls w @ [(StatusUpdate d, case res of Inl e \<Rightarrow> Some e | Inr _ \<Rightarrow> None)]"
  by (auto simp: client_Status_Update_def next_fault_def logged_def Let_def split: list.splits option.splits)

lemma client_Update_calls:
  "client_Update d w = (res, w') \<Longrightarrow>
   calls w' = calls w @ [(UpdateDeployer d, case res of Inl e \<Rightarrow> Some e | Inr _ \<Rightarrow> None)]"
  by (auto simp: client_Update_def next_fault_def logged_def Let_def split: list.splits option.splits)

lemma client_Get_DaemonSet_calls:
  "client_Get_DaemonSet k w = (res, w') \<Longrightarrow>
   calls w' = calls w @ [(GetDaemonSet k, case res of Inl e \<Rightarrow> Some e | Inr _ \<Rightarrow> None)]"
  by (auto simp: client_Get_DaemonSet_def next_fault_def logged_def split: list.splits option.splits)

lemma client_Create_DaemonSet_calls:
  "client_Create_DaemonSet ds w = (res, w') \<Longrightarrow> calls w' = calls w @ [(CreateDaemonSet ds, res)]"
  by (auto simp: client_Create_DaemonSet_def next_fault_def logged_def split: list.splits option.splits)

lemma client_Get_Deployment_calls:
  "client_Get_Deployment k w = (res, w') \<Longrightarrow>
   calls w' = calls w @ [(GetDeployment k, case res of Inl e \<Rightarrow> Some e | Inr _ \<Rightarrow> None)]"
  by (auto simp: client_Get_Deployment_def next_fault_def logged_def split: list.splits option.splits)

lemma client_Create_Deployment_calls:
  "client_Create_Deployment dep w = (res, w') \<Longrightarrow> calls w' = calls w @ [(CreateDeployment dep, res)]"
  by (auto simp: client_Create_Deployment_def next_fault_def logged_def split: list.splits option.splits)

lemma client_Update_Deployment_calls:
  "client_Update_Deployment dep w = (res, w') \<Longrightarrow> calls w' = calls w @ [(UpdateDeployment dep, res)]"
  by (auto simp: client_Update_Deployment_def next_fault_def logged_def split: list.splits option.splits)

lemma doFinalizerOperationsForDeployer_calls:
  "\<exists>a b c m. calls (doFinalizerOperationsForDeployer cr w) = calls w @ [(Event a b c m, None)]"
  by (simp add: doFinalizerOperationsForDeployer_def Recorder_Event_def logged_def)

lemmas client_calls = client_Get_Deployer_calls client_Status_Update_calls client_Update_calls
  client_Get_DaemonSet_calls client_Create_DaemonSet_calls client_Get_Deployment_calls
  client_Create_Deployment_calls client_Update_Deployment_calls

lemma Reconcile_status_calls:
  assumes "Reconcile_status req d w = (res, w')"
  shows "\<exists>l. calls w' = calls w @ l \<and>
           ((l = [] \<and> res = Inr d)
          \<or> (\<exists>x e. l = [(StatusUpdate x, Some e)] \<and> res = Inl (Return noRequeue (Some e)))
          \<or> (\<exists>x e. l = [(StatusUpdate x, None), (GetDeployer req, Some e)] \<and> res = Inl (Return noRequeue (Some e)))
          \<or> (\<exists>x y. l = [(StatusUpdate x, None), (GetDeployer req, None)] \<and> res = Inr y))"
  using assms unfolding Reconcile_status_def
  by (auto split: if_splits prod.splits sum.splits dest!: client_calls)

lemma Reconcile_add_finalizer_calls:
  assumes "Reconcile_add_finalizer d w = (res, w')"
  shows "\<exists>l. calls w' = calls w @ l \<and>
           ((l = [] \<and> res = Inr d \<and> deployerFinalizer \<in> set (Finalizers d))
          \<or> (\<exists>x e. l = [(UpdateDeployer x, Some e)] \<and> deployerFinalizer \<in> set (Finalizers x)
                 \<and> res = Inl (Return noRequeue (Some e)))
          \<or> (\<exists>x y. l = [(UpdateDeployer x, None)] \<and> deployerFinalizer \<in> set (Finalizers x)
                 \<and> res = Inr y))"
  using assms unfolding Reconcile_add_finalizer_def ContainsFinalizer_def AddFinalizer_def
  by (auto split: if_splits prod.splits sum.splits dest!: client_calls)

lemma doFinalizerOperationsForDeployer_calls_eq [simp]:
  "calls (doFinalizerOperationsForDeployer cr w) =
     calls w @ [(Event (Name cr) ''Warning'' ''Deleting''
        (Sprintf ''Custom Resource %s is being deleted from the namespace %s''
          [S (Name cr), S (Namespace cr)]), None)]"
  by (simp add: doFinalizerOperationsForDeployer_def Recorder_Event_def logged_def)

lemma Reconcile_finalize_calls:
  assumes "Reconcile_finalize req d w = (out, w')"
  shows "\<exists>l. calls w' = calls w @ l \<and>
           ((l = [] \<and> out = Return noRequeue None)
          \<or> (\<exists>x e. l = [(StatusUpdate x, Some e)] \<and> out = Return noRequeue (Some e))
          \<or> (\<exists>x a b c m e. l = [(StatusUpdate x, None), (Event a b c m, None), (GetDeployer req, Some e)]
                 \<and> out = Return noRequeue (Some e))
          \<or> (\<exists>x a b c m y e. l = [(StatusUpdate x, None), (Event a b c m, None), (GetDeployer req, None),
                        (StatusUpdate y, Some e)] \<and> out = Return noRequeue (Some e))
          \<or> (\<exists>x a b c m y. l = [(StatusUpdate x, None), (Event a b c m, None), (GetDeployer req, None),
                        (StatusUpdate y, None)] \<and> out = Return \<lparr>Requeue = True, RequeueAfter = 0\<rparr> None)
          \<or> (\<exists>x a b c m y z e. l = [(StatusUpdate x, None), (Event a b c m, None), (GetDeployer req, None),
                        (StatusUpdate y, None), (UpdateDeployer z, e)]
                 \<and> deployerFinalizer \<notin> set (Finalizers z)
                 \<and> out = Return noRequeue e))"
  using assms unfolding Reconcile_finalize_def RemoveFinalizer_def Let_def
  by (auto split: if_splits prod.splits sum.splits dest!: client_calls)

lemma Reconcile_daemonset_calls:
  assumes "Reconcile_daemonset r env d w = (res, w')"
  shows "\<exists>l. calls w' = calls w @ l \<and>
           ((\<exists>k. l = [(GetDaemonSet k, None)] \<and> res = Inr ())
          \<or> (\<exists>k ds. l = [(GetDaemonSet k, Some NotFound), (CreateDaemonSet ds, None)] \<and> res = Inr ())
          \<or> (\<exists>k e out. l = [(GetDaemonSet k, Some e)] \<and> res = Inl out)
          \<or> (\<exists>k x e out. l = [(GetDaemonSet k, Some NotFound), (StatusUpdate x, e)] \<and> res = Inl out)
          \<or> (\<exists>k ds e out. l = [(GetDaemonSet k, Some NotFound), (CreateDaemonSet ds, Some e)] \<and> res = Inl out))"
  using assms unfolding Reconcile_daemonset_def
  by (auto split: if_splits prod.splits sum.splits option.splits error.splits dest!: client_calls)

lemma Reconcile_deployment_calls:
  assumes "Reconcile_deployment r env d w = (res, w')"
  shows "\<exists>l. calls w' = calls w @ l \<and>
           ((\<exists>k found. l = [(GetDeployment k, None)] \<and> res = Inr found)
          \<or> (\<exists>k dep. l = [(GetDeployment k, Some NotFound), (CreateDeployment dep, None)]
                \<and> res = Inl (Return \<lparr>Requeue = False, RequeueAfter = Minute\<rparr> None))
          \<or> (\<exists>k e out. l = [(GetDeployment k, Some e)] \<and> res = Inl out)
          \<or> (\<exists>k x e out. l = [(GetDeployment k, Some NotFound), (StatusUpdate x, e)] \<and> res = Inl out)
          \<or> (\<exists>k dep e out. l = [(GetDeployment k, Some NotFound), (CreateDeployment dep, Some e)] \<and> res = Inl out))"
  using assms unfolding Reconcile_deployment_def
  by (auto split: if_splits prod.splits sum.splits option.splits error.splits dest!: client_calls)

lemma Reconcile_size_calls:
  assumes "Reconcile_size req d found w = (out, w')"
  shows "\<exists>l. calls w' = calls w @ l \<and>
           (l = []
          \<or> (\<exists>x. l = [(UpdateDeployment x, None)])
          \<or> (\<exists>x e e'. l = [(UpdateDeployment x, Some e), (GetDeployer req, Some e')])
          \<or> (\<exists>x e y e'. l = [(UpdateDeployment x, Some e), (GetDeployer req, None), (StatusUpdate y, e')])
          \<or> (\<exists>y e. l = [(StatusUpdate y, e)]))"
  using assms unfolding Reconcile_size_def
  by (auto split: if_splits prod.splits sum.splits option.splits dest!: client_calls)

lemma Reconcile_cases [consumes 1, case_names fetch_failed status_ended finalizer_ended finalize
    daemonset_ended deployment_ended size]:
  assumes "Reconcile r env req w = (out, w')"
  obtains
    err where "client_Get_Deployer req w = (Inl err, w')"
      and "out = (if IsNotFound err then Return noRequeue None else Return noRequeue (Some err))"
  | d w1 where "client_Get_Deployer req w = (Inr d, w1)"
      and "Reconcile_status req d w1 = (Inl out, w')"
  | d w1 d1 w2 where "client_Get_Deployer req w = (Inr d, w1)"
      and "Reconcile_status req d w1 = (Inr d1, w2)"
      and "Reconcile_add_finalizer d1 w2 = (Inl out, w')"
  | d w1 d1 w2 d2 w3 where "client_Get_Deployer req w = (Inr d, w1)"
      and "Reconcile_status req d w1 = (Inr d1, w2)"
      and "Reconcile_add_finalizer d1 w2 = (Inr d2, w3)"
      and "DeletionTimestamp d2 \<noteq> None"
      and "Reconcile_finalize req d2 w3 = (out, w')"
  | d w1 d1 w2 d2 w3 where "client_Get_Deployer req w = (Inr d, w1)"
      and "Reconcile_status req d w1 = (Inr d1, w2)"
      and "Reconcile_add_finalizer d1 w2 = (Inr d2, w3)"
      and "DeletionTimestamp d2 = None"
      and "Reconcile_daemonset r env d2 w3 = (Inl out, w')"
  | d w1 d1 w2 d2 w3 w4 where "client_Get_Deployer req w = (Inr d, w1)"
      and "Reconcile_status req d w1 = (Inr d1, w2)"
      and "Reconcile_add_finalizer d1 w2 = (Inr d2, w3)"
      and "DeletionTimestamp d2 = None"
      and "Reconcile_daemonset r env d2 w3 = (Inr (), w4)"
      and "Reconcile_deployment r env d2 w4 = (Inl out, w')"
  | d w1 d1 w2 d2 w3 w4 found w5 where "client_Get_Deployer req w = (Inr d, w1)"
      and "Reconcile_status req d w1 = (Inr d1, w2)"
      and "Reconcile_add_finalizer d1 w2 = (Inr d2, w3)"
      and "DeletionTimestamp d2 = None"
      and "Reconcile_daemonset r env d2 w3 = (Inr (), w4)"
      and "Reconcile_deployment r env d2 w4 = (Inr found, w5)"
      and "Reconcile_size req d2 found w5 = (out, w')"
  using assms unfolding Reconcile_def
  by (auto split: prod.splits sum.splits if_splits)

lemma initial_calls_fetch_status:
  assumes "client_Get_Deployer req w = (Inr d, w1)" and "Reconcile_status req d w1 = (res, w2)"
  shows "\<exists>l. calls w2 = calls w @ l \<and> list_all (\<lambda>c. initial_call (fst c)) l"
  using assms by (auto dest!: client_calls Reconcile_status_calls)

lemma initial_calls_finalizer:
  assumes "client_Get_Deployer req w = (Inr d, w1)" and "Reconcile_status req d w1 = (res, w2)"
    and "Reconcile_add_finalizer d1 w2 = (res2, w3)"
  shows "\<exists>l. calls w3 = calls w @ l \<and> list_all (\<lambda>c. initial_call (fst c)) l"
  using assms by (auto dest!: client_calls Reconcile_status_calls Reconcile_add_finalizer_calls)

lemma pass_calls_append [simp]: "calls w' = calls w @ l \<Longrightarrow> pass_calls w w' = l"
  by (simp add: pass_calls_def)

lemma initial_callD:
  "list_all (\<lambda>c. initial_call (fst c)) l \<Longrightarrow> (a, e) \<in> set l \<Longrightarrow> initial_call a"
  by (auto simp: list_all_iff)

lemma initial_call_not_UpdateDeployment:
  "list_all (\<lambda>c. initial_call (fst c)) l \<Longrightarrow> \<not> list_ex (\<lambda>c. is_UpdateDeployment (fst c)) l"
proof (induction l)
  case (Cons c l)
  then show ?case by (cases "fst c") auto
qed simp

lemma initial_call_not_Event:
  "list_all (\<lambda>c. initial_call (fst c)) l \<Longrightarrow> filter (\<lambda>c. is_Event (fst c)) l = []"
proof (induction l)
  case (Cons c l)
  then show ?case by (cases "fst c") auto
qed simp

section \<open>Evaluation on the example configurations\<close>

lemmas reconcile_defs = Reconcile_def Reconcile_status_def Reconcile_add_finalizer_def
  Reconcile_finalize_def Reconcile_daemonset_def Reconcile_deployment_def Reconcile_size_def
  doFinalizerOperationsForDeployer_def Recorder_Event_def setCondition_def noRequeue_def
  ContainsFinalizer_def AddFinalizer_def RemoveFinalizer_def

lemmas client_defs = client_Get_Deployer_def client_Status_Update_def client_Update_def
  client_Get_DaemonSet_def client_Create_DaemonSet_def client_Get_Deployment_def
  client_Create_Deployment_def client_Update_Deployment_def next_fault_def logged_def Let_def

lemmas construct_defs = daemonSetForDeployer_def deploymentForDeployer_def labelsForMemcached_def
  imageForDeployer_def imageForResizer_def imageForProvisioner_def imageForRegistrar_def
  imageForLivenessProbe_def index_def SetControllerReference_def

lemmas example_defs = exampleEnv_def exampleReconciler_def noFaults_def reconcilingUnknown_def
  exampleDeployer_def exampleWorld_def exampleLabels_def exampleOwner_def exampleDaemonSet_def
  exampleDeployment_def liveWorld_def deployerFinalizer_def typeAvailableDeployer_def
  typeDegradedDeployer_def failAt_def

lemma calls_liveWorld: "calls liveWorld = []"
  by (simp add: liveWorld_def exampleWorld_def)

lemma liveWorld_first_pass:
  "Reconcile exampleReconciler exampleEnv (''directpv'', ''x'') liveWorld
     = (Return \<lparr>Requeue = False, RequeueAfter = Minute\<rparr> None,
        liveWorld\<lparr>daemonsets := [(''directpv'', ''node-server'') \<mapsto> exampleDaemonSet ''x''],
                  deployments := [(''directpv'', ''x'') \<mapsto> exampleDeployment ''x'' 3],
                  calls := [(GetDeployer (''directpv'', ''x''), None),
                            (GetDaemonSet (''directpv'', ''x''), Some NotFound),
                            (CreateDaemonSet (exampleDaemonSet ''x''), None),
                            (GetDeployment (''directpv'', ''x''), Some NotFound),
                            (CreateDeployment (exampleDeployment ''x'' 3), None)]\<rparr>)"
  by (simp add: reconcile_defs client_defs construct_defs example_defs)

section \<open>Status initialisation\<close>

lemma Reconcile_status_calls_empty:
  assumes "Reconcile_status req d w = (res, w')" and "Conditions d = []"
  shows "\<exists>e. (calls w' = calls w @ [(StatusUpdate (d\<lparr>Conditions := [reconcilingUnknown]\<rparr>), Some e)]
              \<and> res = Inl (Return noRequeue (Some e)))
           \<or> (calls w' = calls w @ [(StatusUpdate (d\<lparr>Conditions := [reconcilingUnknown]\<rparr>), None),
                                     (GetDeployer req, Some e)]
              \<and> res = Inl (Return noRequeue (Some e)))
           \<or> (\<exists>y. calls w' = calls w @ [(StatusUpdate (d\<lparr>Conditions := [reconcilingUnknown]\<rparr>), None),
                                     (GetDeployer req, None)]
              \<and> res = Inr y)"
  using assms unfolding Reconcile_status_def setCondition_def reconcilingUnknown_def typeAvailableDeployer_def
  by (auto split: if_splits prod.splits sum.splits dest!: client_calls)

lemma Reconcile_after_status:
  assumes "Reconcile r env req w = (out, w')"
      and "client_Get_Deployer req w = (Inr d, w1)"
      and "Reconcile_status req d w1 = (Inr d1, w2)"
  shows "\<exists>l. calls w' = calls w2 @ l"
  using assms(1)
proof (cases rule: Reconcile_cases)
  case (fetch_failed err)
  then show ?thesis using assms(2) by simp
next
  case (status_ended d w1)
  then show ?thesis using assms(2,3) by simp
next
  case (finalizer_ended d w1 d1 w2)
  then show ?thesis using assms(2,3)
    by (auto dest!: Reconcile_add_finalizer_calls)
next
  case (finalize d w1 d1 w2 d2 w3)
  then show ?thesis using assms(2,3)
    by (auto dest!: Reconcile_add_finalizer_calls Reconcile_finalize_calls)
next
  case (daemonset_ended d w1 d1 w2 d2 w3)
  then show ?thesis using assms(2,3)
    by (auto dest!: Reconcile_add_finalizer_calls Reconcile_daemonset_calls)
next
  case (deployment_ended d w1 d1 w2 d2 w3 w4)
  then show ?thesis using assms(2,3)
    by (auto dest!: Reconcile_add_finalizer_calls Reconcile_daemonset_calls Reconcile_deployment_calls)
next
  case (size d w1 d1 w2 d2 w3 w4 found w5)
  then show ?thesis using assms(2,3)
    by (auto dest!: Reconcile_add_finalizer_calls Reconcile_daemonset_calls Reconcile_deployment_calls
        Reconcile_size_calls)
qed

text \<open>
  C6. On a resource without conditions, the first write of the pass, right after the
  fetch, is the status update that sets the single condition Available to Unknown with
  reason Reconciling. When it fails, the pass ends there with the error: no finalizer
  and no child workload is touched. When it succeeds, the next call fetches the
  resource again.
\<close>

theorem status_initialised_before_any_other_write:
  assumes d: "deployers w req = Some d" and empty: "Conditions d = []"
      and nf: "fault_at w 0 = None"
      and run: "Reconcile r env req w = (out, w')"
  shows "\<exists>e rest.
           pass_calls w w'
             = (GetDeployer req, None)
               # (StatusUpdate (d\<lparr>Conditions := [\<lparr>Type = ''Available'', Status = ConditionUnknown,
                     Reason = ''Reconciling'', Message = ''Starting reconciliation''\<rparr>]\<rparr>), e)
               # rest
           \<and> (case e of
                Some err \<Rightarrow> rest = [] \<and> out = Return noRequeue (Some err)
              | None \<Rightarrow> (\<exists>e' rest'. rest = (GetDeployer req, e') # rest'))"
proof -
  let ?w1 = "logged (GetDeployer req) None w"
  let ?su = "StatusUpdate (d\<lparr>Conditions := [reconcilingUnknown]\<rparr>)"
  have get: "client_Get_Deployer req w = (Inr d, ?w1)"
    using d nf by (simp add: client_Get_Deployer_def next_fault_def fault_at_def)
  have c1: "calls ?w1 = calls w @ [(GetDeployer req, None)]"
    by (simp add: logged_def)
  obtain res w2 where st: "Reconcile_status req d ?w1 = (res, w2)"
    by (cases "Reconcile_status req d ?w1")
  from Reconcile_status_calls_empty[OF st empty] obtain e where
    sh: "(calls w2 = calls ?w1 @ [(?su, Some e)] \<and> res = Inl (Return noRequeue (Some e)))
       \<or> (calls w2 = calls ?w1 @ [(?su, None), (GetDeployer req, Some e)]
           \<and> res = Inl (Return noRequeue (Some e)))
       \<or> (\<exists>y. calls w2 = calls ?w1 @ [(?su, None), (GetDeployer req, None)] \<and> res = Inr y)"
    by blast
  show ?thesis
  proof (cases res)
    case (Inl o1)
    with run get st have "out = o1" "w' = w2"
      by (simp_all add: Reconcile_def)
    with sh Inl c1 show ?thesis
      by (auto simp: reconcilingUnknown_def)
  next
    case (Inr d1)
    from Reconcile_after_status[OF run get st[unfolded Inr]] obtain l where
      "calls w' = calls w2 @ l" by blast
    with sh Inr c1 show ?thesis
      by (auto simp: reconcilingUnknown_def)
  qed
qed

theorem status_initialised_before_any_other_write_witness:
  "deployers newWorld (''directpv'', ''x'') = Some (exampleDeployer ''x'' [] None [])
   \<and> Conditions (exampleDeployer ''x'' [] None []) = []
   \<and> fault_at newWorld 0 = None
   \<and> (\<exists>e rest.
         pass_calls newWorld (snd (Reconcile exampleReconciler exampleEnv (''directpv'', ''x'') newWorld))
           = (GetDeployer (''directpv'', ''x''), None)
             # (StatusUpdate ((exampleDeployer ''x'' [] None [])\<lparr>Conditions :=
                   [\<lparr>Type = ''Available'', Status = ConditionUnknown,
                     Reason = ''Reconciling'', Message = ''Starting reconciliation''\<rparr>]\<rparr>), e)
             # rest)"
proof -
  have h: "deployers newWorld (''directpv'', ''x'') = Some (exampleDeployer ''x'' [] None [])"
      "Conditions (exampleDeployer ''x'' [] None []) = []"
      "fault_at newWorld 0 = None"
    by (simp_all add: newWorld_def exampleWorld_def exampleDeployer_def fault_at_def noFaults_def)
  from status_initialised_before_any_other_write[OF h surjective_pairing,
      of exampleReconciler exampleEnv] h
  show ?thesis by blast
qed

section \<open>Finalizer lifecycle on a resource marked for deletion\<close>

text \<open>
  C3. The finalizer is added whenever it is absent, also on a resource marked for
  deletion. For a resource that another finalizer keeps in the store, two passes send
  these finalizer sets: the first pass removes the finalizer of the controller, the
  second pass adds it again and removes it once more. When the API refuses the new
  finalizer, the second pass has still sent it and ends with that error.
\<close>

theorem finalizer_is_added_again_after_removal:
  "finalizer_writes
     (calls (snd (Reconcile exampleReconciler exampleEnv (''directpv'', ''x'')
        (snd (Reconcile exampleReconciler exampleEnv (''directpv'', ''x'')
           (deletingWorld noFaults))))))
   = [([''foregroundDeletion''], None),
      ([''foregroundDeletion'', ''cache.example.com/finalizer''], None),
      ([''foregroundDeletion''], None)]
   \<and> finalizer_writes
     (calls (snd (Reconcile exampleReconciler exampleEnv (''directpv'', ''x'')
        (snd (Reconcile exampleReconciler exampleEnv (''directpv'', ''x'')
           (deletingWorld (failAt 7 forbidden)))))))
   = [([''foregroundDeletion''], None),
      ([''foregroundDeletion'', ''cache.example.com/finalizer''], Some (ApiFailure forbidden))]
   \<and> fst (Reconcile exampleReconciler exampleEnv (''directpv'', ''x'')
        (snd (Reconcile exampleReconciler exampleEnv (''directpv'', ''x'')
           (deletingWorld (failAt 7 forbidden)))))
   = Return noRequeue (Some (ApiFailure forbidden))"
  by (simp add: reconcile_defs client_defs example_defs deletingWorld_def)

text \<open>
  C4. A pass on a resource marked for deletion that does not carry the finalizer is not
  a no-op: after the fetch it writes the finalizer, writes the status twice, emits the
  audit event and writes the finalizer set again, before it returns without error and
  without requeue. When the API refuses the new finalizer, the pass has still sent the
  write and ends with that error.
\<close>

theorem deleted_resource_without_finalizer_is_written:
  "fst (Reconcile exampleReconciler exampleEnv (''directpv'', ''x'') (releasedWorld noFaults))
     = Return noRequeue None
   \<and> map (\<lambda>c. is_write (fst c) \<or> is_Event (fst c))
       (calls (snd (Reconcile exampleReconciler exampleEnv (''directpv'', ''x'')
                      (releasedWorld noFaults))))
     = [False, True, True, True, False, True, True]
   \<and> finalizer_writes
       (calls (snd (Reconcile exampleReconciler exampleEnv (''directpv'', ''x'')
                      (releasedWorld noFaults))))
     = [([''foregroundDeletion'', ''cache.example.com/finalizer''], None),
        ([''foregroundDeletion''], None)]
   \<and> fst (Reconcile exampleReconciler exampleEnv (''directpv'', ''x'')
            (releasedWorld (failAt 1 forbidden)))
     = Return noRequeue (Some (ApiFailure forbidden))
   \<and> finalizer_writes
       (calls (snd (Reconcile exampleReconciler exampleEnv (''directpv'', ''x'')
                      (releasedWorld (failAt 1 forbidden)))))
     = [([''foregroundDeletion'', ''cache.example.com/finalizer''], Some (ApiFailure forbidden))]"
  by (simp add: reconcile_defs client_defs example_defs releasedWorld_def)

section \<open>Cleanup and removal of the finalizer\<close>

lemma cleanup_before_removal_initial:
  "list_all (\<lambda>c. initial_call (fst c)) l0 \<Longrightarrow>
   cleanup_before_removal seen (l0 @ l) = cleanup_before_removal seen l"
proof (induction l0)
  case (Cons c l0)
  obtain a e where c: "c = (a, e)" by (cases c)
  with Cons show ?case by (cases a) auto
qed simp

lemma cleanup_before_removal_initial_only:
  "list_all (\<lambda>c. initial_call (fst c)) l0 \<Longrightarrow> cleanup_before_removal seen l0"
  using cleanup_before_removal_initial[of l0 seen "[]"] by simp

text \<open>
  C9, as stated, fails: when the second status update of the finalizer sequence is
  rejected, the pass is abandoned after the audit event; the next pass starts from the
  top and emits the event again, so one deletion sees two events.
\<close>

theorem cleanup_event_emitted_twice:
  "length (filter (\<lambda>c. is_Event (fst c))
     (calls (snd (Reconcile exampleReconciler exampleEnv (''directpv'', ''x'')
        (snd (Reconcile exampleReconciler exampleEnv (''directpv'', ''x'')
           (deletingWorld conflictAtFour))))))) = 2"
  by (simp add: reconcile_defs client_defs example_defs deletingWorld_def conflictAtFour_def)

text \<open>
  C9, amended. Every pass emits the audit event at most once, and an update that drops
  the finalizer is issued only after the event of that same pass.
\<close>

theorem cleanup_once_per_pass_before_removal:
  "length (filter (\<lambda>c. is_Event (fst c)) (pass_calls w (snd (Reconcile r env req w)))) \<le> 1
   \<and> cleanup_before_removal False (pass_calls w (snd (Reconcile r env req w)))"
proof -
  obtain out w' where run: "Reconcile r env req w = (out, w')" by (cases "Reconcile r env req w")
  have "length (filter (\<lambda>c. is_Event (fst c)) (pass_calls w w')) \<le> 1
      \<and> cleanup_before_removal False (pass_calls w w')"
    using run
  proof (cases rule: Reconcile_cases)
    case (fetch_failed err)
    then show ?thesis by (auto dest!: client_calls)
  next
    case (status_ended d w1)
    from initial_calls_fetch_status[OF this] show ?thesis
      by (auto simp: initial_call_not_Event cleanup_before_removal_initial_only)
  next
    case (finalizer_ended d w1 d1 w2)
    from initial_calls_finalizer[OF this] show ?thesis
      by (auto simp: initial_call_not_Event cleanup_before_removal_initial_only)
  next
    case (finalize d w1 d1 w2 d2 w3)
    from initial_calls_finalizer[OF finalize(1-3)] obtain l where
      l: "calls w3 = calls w @ l" "list_all (\<lambda>c. initial_call (fst c)) l" by blast
    from Reconcile_finalize_calls[OF finalize(5)] l show ?thesis
      by (auto simp: initial_call_not_Event cleanup_before_removal_initial
          cleanup_before_removal_initial_only)
  next
    case (daemonset_ended d w1 d1 w2 d2 w3)
    from initial_calls_finalizer[OF daemonset_ended(1-3)] obtain l where
      l: "calls w3 = calls w @ l" "list_all (\<lambda>c. initial_call (fst c)) l" by blast
    from Reconcile_daemonset_calls[OF daemonset_ended(5)] l show ?thesis
      by (auto simp: initial_call_not_Event cleanup_before_removal_initial
          cleanup_before_removal_initial_only)
  next
    case (deployment_ended d w1 d1 w2 d2 w3 w4)
    from initial_calls_finalizer[OF deployment_ended(1-3)] obtain l where
      l: "calls w3 = calls w @ l" "list_all (\<lambda>c. initial_call (fst c)) l" by blast
    from Reconcile_daemonset_calls[OF deployment_ended(5)]
      Reconcile_deployment_calls[OF deployment_ended(6)] l show ?thesis
      by (auto simp: initial_call_not_Event cleanup_before_removal_initial
          cleanup_before_removal_initial_only)
  next
    case (size d w1 d1 w2 d2 w3 w4 found w5)
    from initial_calls_finalizer[OF size(1-3)] obtain l where
      l: "calls w3 = calls w @ l" "list_all (\<lambda>c. initial_call (fst c)) l" by blast
    from Reconcile_daemonset_calls[OF size(5)] Reconcile_deployment_calls[OF size(6)]
      Reconcile_size_calls[OF size(7)] l show ?thesis
      by (auto simp: initial_call_not_Event cleanup_before_removal_initial
          cleanup_before_removal_initial_only)
  qed
  then show ?thesis by (simp add: run)
qed

section \<open>Names of the child workloads\<close>

lemma daemonSetForDeployer_name:
  "daemonSetForDeployer r env d = Inr (Inr ds) \<Longrightarrow>
   dsName ds = ''node-server'' \<and> dsNamespace ds = Namespace d"
  by (auto simp: daemonSetForDeployer_def split: sum.splits)

lemma deploymentForDeployer_name:
  "deploymentForDeployer r env d = Inr (Inr dep) \<Longrightarrow>
   depName dep = Name d \<and> depNamespace dep = Namespace d"
  by (auto simp: deploymentForDeployer_def split: sum.splits)

text \<open>
  C2. The lookup of the daemonset uses the name of the resource, the daemonset that is
  constructed is always named \<^verbatim>\<open>node-server\<close>. For the resource \<open>x\<close> the first pass stores
  the daemonset under \<^verbatim>\<open>node-server\<close>; the second pass looks it up under \<open>x\<close>, does not
  find it, tries to create it again and ends with the error AlreadyExists.
\<close>

theorem created_daemonset_is_not_found_by_next_pass:
  "daemonsets (snd (Reconcile exampleReconciler exampleEnv (''directpv'', ''x'') liveWorld))
      (''directpv'', ''node-server'') = Some (exampleDaemonSet ''x'')
   \<and> Reconcile exampleReconciler exampleEnv (''directpv'', ''x'')
       (snd (Reconcile exampleReconciler exampleEnv (''directpv'', ''x'') liveWorld))
     = (Return noRequeue (Some AlreadyExists),
        liveWorld\<lparr>daemonsets := [(''directpv'', ''node-server'') \<mapsto> exampleDaemonSet ''x''],
                  deployments := [(''directpv'', ''x'') \<mapsto> exampleDeployment ''x'' 3],
                  calls := [(GetDeployer (''directpv'', ''x''), None),
                            (GetDaemonSet (''directpv'', ''x''), Some NotFound),
                            (CreateDaemonSet (exampleDaemonSet ''x''), None),
                            (GetDeployment (''directpv'', ''x''), Some NotFound),
                            (CreateDeployment (exampleDeployment ''x'' 3), None),
                            (GetDeployer (''directpv'', ''x''), None),
                            (GetDaemonSet (''directpv'', ''x''), Some NotFound),
                            (CreateDaemonSet (exampleDaemonSet ''x''), Some AlreadyExists)]\<rparr>)"
  apply (simp only: liveWorld_first_pass snd_conv)
  apply (simp add: reconcile_defs client_defs construct_defs example_defs)
  done

section \<open>Creation of the daemonset\<close>

text \<open>
  C1, as stated, fails: for the live resource \<open>x\<close> without child workloads, with the
  complete image configuration and no API failure, the pass creates the daemonset and
  then, in the same pass, looks the deployment up and creates it.
\<close>

theorem daemonset_create_does_not_end_pass:
  "pass_calls liveWorld (snd (Reconcile exampleReconciler exampleEnv (''directpv'', ''x'') liveWorld))
     = [(GetDeployer (''directpv'', ''x''), None),
        (GetDaemonSet (''directpv'', ''x''), Some NotFound),
        (CreateDaemonSet (exampleDaemonSet ''x''), None),
        (GetDeployment (''directpv'', ''x''), Some NotFound),
        (CreateDeployment (exampleDeployment ''x'' 3), None)]"
  by (simp add: liveWorld_first_pass pass_calls_def calls_liveWorld)

lemma Reconcile_deployment_calls_head:
  assumes "Reconcile_deployment r env d w = (res, w')"
  shows "\<exists>k e rest. calls w' = calls w @ (GetDeployment k, e) # rest
           \<and> (CreateDaemonSet ds, None) \<notin> set rest"
  using Reconcile_deployment_calls[OF assms] by auto

lemma Reconcile_size_calls_no_CreateDaemonSet:
  assumes "Reconcile_size req d found w = (out, w')"
  shows "\<exists>l. calls w' = calls w @ l \<and> (CreateDaemonSet ds, None) \<notin> set l"
  using Reconcile_size_calls[OF assms] by auto

lemma Reconcile_daemonset_calls_created:
  assumes "Reconcile_daemonset r env d w = (res, w')"
  shows "\<exists>l. calls w' = calls w @ l \<and>
           ((CreateDaemonSet ds, None) \<notin> set l
          \<or> (\<exists>k. l = [(GetDaemonSet k, Some NotFound), (CreateDaemonSet ds, None)] \<and> res = Inr ()))"
  using Reconcile_daemonset_calls[OF assms] by auto

text \<open>
  C1, amended. In every pass in which the daemonset is created successfully, the pass
  does not end with the create: the call that follows it in the same pass is the lookup
  of the deployment.
\<close>

theorem daemonset_create_is_followed_by_deployment_lookup:
  assumes "Reconcile r env req w = (out, w')"
      and "(CreateDaemonSet ds, None) \<in> set (pass_calls w w')"
  shows "\<exists>pre k e post.
           pass_calls w w' = pre @ [(CreateDaemonSet ds, None), (GetDeployment k, e)] @ post"
  using assms(1)
proof (cases rule: Reconcile_cases)
  case (fetch_failed err)
  then show ?thesis using assms(2) by (auto dest!: client_calls)
next
  case (status_ended d w1)
  from initial_calls_fetch_status[OF this] show ?thesis using assms(2)
    by (auto dest: initial_callD)
next
  case (finalizer_ended d w1 d1 w2)
  from initial_calls_finalizer[OF this] show ?thesis using assms(2)
    by (auto dest: initial_callD)
next
  case (finalize d w1 d1 w2 d2 w3)
  from initial_calls_finalizer[OF finalize(1-3)] obtain l where
    l: "calls w3 = calls w @ l" "list_all (\<lambda>c. initial_call (fst c)) l" by blast
  from Reconcile_finalize_calls[OF finalize(5)] l show ?thesis using assms(2)
    by (auto dest: initial_callD)
next
  case (daemonset_ended d w1 d1 w2 d2 w3)
  from initial_calls_finalizer[OF daemonset_ended(1-3)] obtain l where
    l: "calls w3 = calls w @ l" "list_all (\<lambda>c. initial_call (fst c)) l" by blast
  from Reconcile_daemonset_calls_created[OF daemonset_ended(5), of ds] l show ?thesis using assms(2)
    by (auto dest: initial_callD)
next
  case (deployment_ended d w1 d1 w2 d2 w3 w4)
  from initial_calls_finalizer[OF deployment_ended(1-3)] obtain l0 where
    l0: "calls w3 = calls w @ l0" "list_all (\<lambda>c. initial_call (fst c)) l0" by blast
  from Reconcile_daemonset_calls_created[OF deployment_ended(5), of ds] obtain l1 where
    l1: "calls w4 = calls w3 @ l1"
      "(CreateDaemonSet ds, None) \<notin> set l1
       \<or> (\<exists>k. l1 = [(GetDaemonSet k, Some NotFound), (CreateDaemonSet ds, None)])" by blast
  from Reconcile_deployment_calls_head[OF deployment_ended(6), of ds] obtain k e rest where
    l2: "calls w' = calls w4 @ (GetDeployment k, e) # rest" "(CreateDaemonSet ds, None) \<notin> set rest"
    by blast
  have pc: "pass_calls w w' = l0 @ l1 @ (GetDeployment k, e) # rest"
    using l0(1) l1(1) l2(1) by simp
  with assms(2) l0(2) l2(2) have "(CreateDaemonSet ds, None) \<in> set l1"
    by (auto dest: initial_callD)
  with l1(2) obtain k' where "l1 = [(GetDaemonSet k', Some NotFound), (CreateDaemonSet ds, None)]"
    by blast
  with pc have "pass_calls w w'
      = (l0 @ [(GetDaemonSet k', Some NotFound)]) @ [(CreateDaemonSet ds, None), (GetDeployment k, e)] @ rest"
    by simp
  then show ?thesis by blast
next
  case (size d w1 d1 w2 d2 w3 w4 found w5)
  from initial_calls_finalizer[OF size(1-3)] obtain l0 where
    l0: "calls w3 = calls w @ l0" "list_all (\<lambda>c. initial_call (fst c)) l0" by blast
  from Reconcile_daemonset_calls_created[OF size(5), of ds] obtain l1 where
    l1: "calls w4 = calls w3 @ l1"
      "(CreateDaemonSet ds, None) \<notin> set l1
       \<or> (\<exists>k. l1 = [(GetDaemonSet k, Some NotFound), (CreateDaemonSet ds, None)])" by blast
  from Reconcile_deployment_calls_head[OF size(6), of ds] obtain k e rest where
    l2: "calls w5 = calls w4 @ (GetDeployment k, e) # rest" "(CreateDaemonSet ds, None) \<notin> set rest"
    by blast
  from Reconcile_size_calls_no_CreateDaemonSet[OF size(7), of ds] obtain l3 where
    l3: "calls w' = calls w5 @ l3" "(CreateDaemonSet ds, None) \<notin> set l3" by blast
  have pc: "pass_calls w w' = l0 @ l1 @ (GetDeployment k, e) # rest @ l3"
    using l0(1) l1(1) l2(1) l3(1) by simp
  with assms(2) l0(2) l2(2) l3(2) have "(CreateDaemonSet ds, None) \<in> set l1"
    by (auto dest: initial_callD)
  with l1(2) obtain k' where "l1 = [(GetDaemonSet k', Some NotFound), (CreateDaemonSet ds, None)]"
    by blast
  with pc have "pass_calls w w'
      = (l0 @ [(GetDaemonSet k', Some NotFound)]) @ [(CreateDaemonSet ds, None), (GetDeployment k, e)] @ (rest @ l3)"
    by simp
  then show ?thesis by blast
qed

theorem daemonset_create_is_followed_by_deployment_lookup_witness:
  "(CreateDaemonSet (exampleDaemonSet ''x''), None)
     \<in> set (pass_calls liveWorld
              (snd (Reconcile exampleReconciler exampleEnv (''directpv'', ''x'') liveWorld)))
   \<and> (\<exists>pre k e post.
         pass_calls liveWorld
           (snd (Reconcile exampleReconciler exampleEnv (''directpv'', ''x'') liveWorld))
         = pre @ [(CreateDaemonSet (exampleDaemonSet ''x''), None), (GetDeployment k, e)] @ post)"
proof -
  have h: "(CreateDaemonSet (exampleDaemonSet ''x''), None)
     \<in> set (pass_calls liveWorld
              (snd (Reconcile exampleReconciler exampleEnv (''directpv'', ''x'') liveWorld)))"
    by (simp add: liveWorld_first_pass pass_calls_def calls_liveWorld)
  from daemonset_create_is_followed_by_deployment_lookup[OF surjective_pairing h] h
  show ?thesis by simp
qed

section \<open>Creation of the deployment\<close>

text \<open>
  C8. In every pass in which the deployment is created successfully, \<^verbatim>\<open>Reconcile\<close> returns
  without error and asks to be requeued after one minute (not at once); the create is
  the last call of the pass and the pass makes no update of the deployment, so the check
  of the replica count is not run.
\<close>

theorem deployment_create_ends_pass_with_delayed_requeue:
  assumes "Reconcile r env req w = (out, w')"
      and "(CreateDeployment dep, None) \<in> set (pass_calls w w')"
  shows "out = Return \<lparr>Requeue = False, RequeueAfter = Minute\<rparr> None
       \<and> last (pass_calls w w') = (CreateDeployment dep, None)
       \<and> \<not> list_ex (\<lambda>c. is_UpdateDeployment (fst c)) (pass_calls w w')
       \<and> Minute = 60 * 1000000000"
  using assms(1)
proof (cases rule: Reconcile_cases)
  case (fetch_failed err)
  then show ?thesis using assms(2) by (auto dest!: client_calls)
next
  case (status_ended d w1)
  from initial_calls_fetch_status[OF this] show ?thesis using assms(2)
    by (auto simp: initial_call_not_UpdateDeployment dest: initial_callD)
next
  case (finalizer_ended d w1 d1 w2)
  from initial_calls_finalizer[OF this] show ?thesis using assms(2)
    by (auto simp: initial_call_not_UpdateDeployment dest: initial_callD)
next
  case (finalize d w1 d1 w2 d2 w3)
  from initial_calls_finalizer[OF finalize(1-3)] obtain l where
    l: "calls w3 = calls w @ l" "list_all (\<lambda>c. initial_call (fst c)) l" by blast
  from Reconcile_finalize_calls[OF finalize(5)] l show ?thesis using assms(2)
    by (auto simp: initial_call_not_UpdateDeployment dest: initial_callD)
next
  case (daemonset_ended d w1 d1 w2 d2 w3)
  from initial_calls_finalizer[OF daemonset_ended(1-3)] obtain l where
    l: "calls w3 = calls w @ l" "list_all (\<lambda>c. initial_call (fst c)) l" by blast
  from Reconcile_daemonset_calls[OF daemonset_ended(5)] l show ?thesis using assms(2)
    by (auto simp: initial_call_not_UpdateDeployment dest: initial_callD)
next
  case (deployment_ended d w1 d1 w2 d2 w3 w4)
  from initial_calls_finalizer[OF deployment_ended(1-3)] obtain l where
    l: "calls w3 = calls w @ l" "list_all (\<lambda>c. initial_call (fst c)) l" by blast
  from Reconcile_daemonset_calls[OF deployment_ended(5)] Reconcile_deployment_calls[OF deployment_ended(6)] l
  show ?thesis using assms(2)
    by (auto simp: Minute_def initial_call_not_UpdateDeployment dest: initial_callD)
next
  case (size d w1 d1 w2 d2 w3 w4 found w5)
  from initial_calls_finalizer[OF size(1-3)] obtain l where
    l: "calls w3 = calls w @ l" "list_all (\<lambda>c. initial_call (fst c)) l" by blast
  from Reconcile_daemonset_calls[OF size(5)] Reconcile_deployment_calls[OF size(6)]
    Reconcile_size_calls[OF size(7)] l
  show ?thesis using assms(2)
    by (auto simp: initial_call_not_UpdateDeployment dest: initial_callD)
qed

theorem deployment_create_ends_pass_with_delayed_requeue_witness:
  "(CreateDeployment (exampleDeployment ''x'' 3), None)
     \<in> set (pass_calls liveWorld
              (snd (Reconcile exampleReconciler exampleEnv (''directpv'', ''x'') liveWorld)))
   \<and> fst (Reconcile exampleReconciler exampleEnv (''directpv'', ''x'') liveWorld)
       = Return \<lparr>Requeue = False, RequeueAfter = Minute\<rparr> None"
proof -
  have h: "(CreateDeployment (exampleDeployment ''x'' 3), None)
     \<in> set (pass_calls liveWorld
              (snd (Reconcile exampleReconciler exampleEnv (''directpv'', ''x'') liveWorld)))"
    by (simp add: liveWorld_first_pass pass_calls_def calls_liveWorld)
  from deployment_create_ends_pass_with_delayed_requeue[OF surjective_pairing h] h
  show ?thesis by simp
qed

section \<open>Replica drift\<close>




section \<open>Steady state\<close>

lemma SetStatusCondition_found:
  "find (\<lambda>x. Type x = Type c) cs = Some c \<Longrightarrow> SetStatusCondition cs c = cs"
  by (induction cs) (auto split: if_splits)

lemma setCondition_already_set:
  assumes "FindStatusCondition (Conditions d) t
             = Some \<lparr>Type = t, Status = s, Reason = rsn, Message = msg\<rparr>"
  shows "setCondition d t s rsn msg = d"
  using SetStatusCondition_found[of "\<lparr>Type = t, Status = s, Reason = rsn, Message = msg\<rparr>" "Conditions d"] assms
  by (simp add: setCondition_def FindStatusCondition_def)

lemma FindStatusCondition_nonempty:
  "FindStatusCondition cs t = Some c \<Longrightarrow> cs \<noteq> []"
  by (auto simp: FindStatusCondition_def)

lemma steady_pass:
  assumes d: "deployers w req = Some d" and req: "req = (Namespace d, Name d)"
      and fin: "deployerFinalizer \<in> set (Finalizers d)" and live: "DeletionTimestamp d = None"
      and av: "FindStatusCondition (Conditions d) typeAvailableDeployer
                 = Some \<lparr>Type = typeAvailableDeployer, Status = ConditionTrue,
                         Reason = ''Reconciling'', Message = availableMessage d\<rparr>"
      and ds: "daemonsets w (''directpv'', Name d) = Some ds"
      and dep: "deployments w (''directpv'', Name d) = Some dep"
      and reps: "depReplicas dep = Some (Size d)"
      and nf: "\<forall>i<4. fault_at w i = None"
  shows "Reconcile r env req w
           = (Return noRequeue None,
              w\<lparr>calls := calls w @ [(GetDeployer req, None),
                                     (GetDaemonSet (''directpv'', Name d), None),
                                     (GetDeployment (''directpv'', Name d), None),
                                     (StatusUpdate d, None)]\<rparr>)"
proof -
  have f: "faults w (length (calls w)) = None"
      "faults w (Suc (length (calls w))) = None"
      "faults w (Suc (Suc (length (calls w)))) = None"
      "faults w (Suc (Suc (Suc (length (calls w))))) = None"
    using nf[rule_format, of 0] nf[rule_format, of "Suc 0"] nf[rule_format, of "Suc (Suc 0)"]
      nf[rule_format, of "Suc (Suc (Suc 0))"]
    by (simp_all add: fault_at_def)
  have ne: "Conditions d \<noteq> []" using FindStatusCondition_nonempty[OF av] .
  have same: "setCondition d typeAvailableDeployer ConditionTrue ''Reconciling''
      (Sprintf ''Deployment for custom resource (%s) with %d replicas created successfully''
         [S (Name d), D (Size d)]) = d"
    using setCondition_already_set[OF av] by (simp add: availableMessage_def)
  have upd: "(deployers w)(req \<mapsto> d) = deployers w"
    using d by (simp add: map_upd_triv)
  show ?thesis
    unfolding Reconcile_def Reconcile_status_def Reconcile_add_finalizer_def
      Reconcile_daemonset_def Reconcile_deployment_def Reconcile_size_def
    using d req fin live ds dep reps f ne upd
    by (simp add: same client_Get_Deployer_def client_Get_DaemonSet_def client_Get_Deployment_def
        client_Status_Update_def next_fault_def logged_def ContainsFinalizer_def)
qed

text \<open>
  C5, as stated, fails: the pass on a resource in steady state writes the status.
\<close>

theorem steady_state_pass_writes_status:
  "list_ex (\<lambda>c. is_write (fst c))
     (pass_calls (convergedWorld 3 noFaults)
        (snd (Reconcile exampleReconciler exampleEnv (''directpv'', ''node-server'')
                (convergedWorld 3 noFaults))))"
  by (simp add: reconcile_defs client_defs example_defs convergedWorld_def convergedDeployer_def
      pass_calls_def)

text \<open>
  C5, amended. A pass on a resource in steady state (live, finalizer attached, Available
  already True with the message of the current size, both child workloads found, no
  drift, no API failure) makes exactly one write, a status update whose payload is the
  stored resource: the world after the pass differs from the world before only by the
  log. It returns without error and without requeue, and a second pass does the same.
\<close>

theorem steady_state_pass_keeps_store:
  assumes d: "deployers w req = Some d" and req: "req = (Namespace d, Name d)"
      and fin: "deployerFinalizer \<in> set (Finalizers d)" and live: "DeletionTimestamp d = None"
      and av: "FindStatusCondition (Conditions d) typeAvailableDeployer
                 = Some \<lparr>Type = typeAvailableDeployer, Status = ConditionTrue,
                         Reason = ''Reconciling'', Message = availableMessage d\<rparr>"
      and ds: "daemonsets w (''directpv'', Name d) = Some ds"
      and dep: "deployments w (''directpv'', Name d) = Some dep"
      and reps: "depReplicas dep = Some (Size d)"
      and nf: "\<forall>i<8. fault_at w i = None"
  shows "Reconcile r env req w
           = (Return noRequeue None, w\<lparr>calls := calls w @ steadyCalls req d\<rparr>)
       \<and> Reconcile r env req (w\<lparr>calls := calls w @ steadyCalls req d\<rparr>)
           = (Return noRequeue None, w\<lparr>calls := calls w @ steadyCalls req d @ steadyCalls req d\<rparr>)
       \<and> filter (\<lambda>c. is_write (fst c)) (steadyCalls req d) = [(StatusUpdate d, None)]"
proof -
  let ?w = "w\<lparr>calls := calls w @ steadyCalls req d\<rparr>"
  have nf1: "\<forall>i<4. fault_at w i = None" using nf by simp
  have nf2: "\<forall>i<4. fault_at ?w i = None"
  proof (intro allI impI)
    fix i :: nat assume "i < 4"
    then have lt: "4 + i < 8" by simp
    have idx: "length (calls ?w) + i = length (calls w) + (4 + i)"
      by (simp add: steadyCalls_def)
    have "fault_at ?w i = faults w (length (calls ?w) + i)"
      by (simp add: fault_at_def)
    also have "\<dots> = faults w (length (calls w) + (4 + i))"
      by (simp only: idx)
    also have "\<dots> = None"
      using nf[rule_format, OF lt] by (simp only: fault_at_def)
    finally show "fault_at ?w i = None" .
  qed
  have one: "Reconcile r env req w = (Return noRequeue None, ?w)"
    using steady_pass[OF d req fin live av ds dep reps nf1] by (simp add: steadyCalls_def)
  have two: "Reconcile r env req ?w = (Return noRequeue None, ?w\<lparr>calls := calls ?w @ steadyCalls req d\<rparr>)"
    using steady_pass[of ?w req d ds dep r env] d req fin live av ds dep reps nf2
    by (simp add: steadyCalls_def)
  show ?thesis using one two by (simp add: steadyCalls_def)
qed

theorem steady_state_pass_keeps_store_witness:
  "deployers (convergedWorld 3 noFaults) (''directpv'', ''node-server'') = Some convergedDeployer
   \<and> deployerFinalizer \<in> set (Finalizers convergedDeployer)
   \<and> faults (convergedWorld 3 noFaults) = noFaults
   \<and> Reconcile exampleReconciler exampleEnv (''directpv'', ''node-server'') (convergedWorld 3 noFaults)
       = (Return noRequeue None,
          (convergedWorld 3 noFaults)\<lparr>calls := steadyCalls (''directpv'', ''node-server'') convergedDeployer\<rparr>)"
proof -
  have h: "deployers (convergedWorld 3 noFaults) (''directpv'', ''node-server'') = Some convergedDeployer"
      "(''directpv'', ''node-server'') = (Namespace convergedDeployer, Name convergedDeployer)"
      "deployerFinalizer \<in> set (Finalizers convergedDeployer)"
      "DeletionTimestamp convergedDeployer = None"
      "FindStatusCondition (Conditions convergedDeployer) typeAvailableDeployer
         = Some \<lparr>Type = typeAvailableDeployer, Status = ConditionTrue,
                 Reason = ''Reconciling'', Message = availableMessage convergedDeployer\<rparr>"
      "daemonsets (convergedWorld 3 noFaults) (''directpv'', Name convergedDeployer)
         = Some (exampleDaemonSet ''node-server'')"
      "deployments (convergedWorld 3 noFaults) (''directpv'', Name convergedDeployer)
         = Some (exampleDeployment ''node-server'' 3)"
      "depReplicas (exampleDeployment ''node-server'' 3) = Some (Size convergedDeployer)"
      "\<forall>i<8. fault_at (convergedWorld 3 noFaults) i = None"
    by (simp_all add: convergedWorld_def convergedDeployer_def exampleDeployer_def
        exampleDeployment_def FindStatusCondition_def availableMessage_def
        typeAvailableDeployer_def fault_at_def noFaults_def)
  have c: "calls (convergedWorld 3 noFaults) = []" by (simp add: convergedWorld_def)
  have f: "faults (convergedWorld 3 noFaults) = noFaults" by (simp add: convergedWorld_def)
  from steady_state_pass_keeps_store[OF h, of exampleReconciler exampleEnv] h(1,3) c f
  show ?thesis by simp
qed

end
